theory Spec2Isabelle
  imports Main
begin

section \<open>MedMind backend: dose logs, medications, streak and dashboard totals\<close>

text \<open>
  A shallow embedding of \<^verbatim>\<open>src/backend/server.py\<close>. The three MongoDB collections the
  handlers touch are lists of documents in insertion order; a handler takes the database
  and returns the new one where it writes. Values the source draws from the environment
  (\<^verbatim>\<open>uuid.uuid4()\<close>, \<^verbatim>\<open>datetime.utcnow()\<close>, \<^verbatim>\<open>datetime.now()\<close>) are arguments of the
  model. An \<^verbatim>\<open>HTTPException\<close> or an uncaught Python exception is the left summand of
  the result.
\<close>

subsection \<open>Dates and times\<close>

text \<open>
  A naive \<^verbatim>\<open>datetime\<close> is a count of microseconds, a \<^verbatim>\<open>date\<close> a count of days, on
  one common origin. The ends of Python's date range (years 1 and 9999) are not
  modelled: the dates come from the system clock.
\<close>

type_synonym datetime = int
type_synonym date = int

definition usec_per_day :: int where
  "usec_per_day = 86400000000"

text \<open>\<^verbatim>\<open>datetime.date()\<close>\<close>

definition date_part :: "datetime \<Rightarrow> date" where
  "date_part t = t div usec_per_day"

text \<open>\<^verbatim>\<open>datetime.min.time()\<close> is 00:00:00, \<^verbatim>\<open>datetime.max.time()\<close> is 23:59:59.999999.\<close>

definition min_time :: int where
  "min_time = 0"

definition max_time :: int where
  "max_time = 86399999999"

text \<open>\<^verbatim>\<open>datetime.combine(d, t)\<close>\<close>

definition combine :: "date \<Rightarrow> int \<Rightarrow> datetime" where
  "combine d t = d * usec_per_day + t"

subsection \<open>Documents\<close>

text \<open>
  Field names carry a prefix, since \<^verbatim>\<open>id\<close>, \<^verbatim>\<open>user_id\<close>, \<^verbatim>\<open>name\<close> and
  \<^verbatim>\<open>created_at\<close> occur in several models. A \<^verbatim>\<open>Dict[str, Any]\<close> is an association list.
\<close>

type_synonym dict = "(string \<times> string) list"

record UserProfile =
  prof_id :: string
  prof_name :: string
  prof_age :: int
  prof_phone_number :: string
  prof_profile_photo :: "string option"
  prof_emergency_contact :: dict
  prof_caregiver_contact :: dict
  prof_doctor_contact :: dict
  prof_appearance_mode :: string
  prof_reminder_tone :: string
  prof_notification_preferences :: "(string \<times> bool) list"
  prof_fitbit_connected :: bool
  prof_apple_watch_connected :: bool
  prof_created_at :: datetime
  prof_onboarding_completed :: bool

record Medication =
  med_id :: string
  med_user_id :: string
  med_name :: string
  med_dosage :: string
  med_frequency :: string
  med_time_slots :: "string list"
  med_total_pills :: int
  med_remaining_pills :: int
  med_refill_info :: "dict option"
  med_prescription_image :: "string option"
  med_ai_extracted_info :: "dict option"
  med_created_at :: datetime
  med_is_active :: bool

record MedicationCreateWithUser =
  mc_user_id :: string
  mc_name :: string
  mc_dosage :: string
  mc_frequency :: string
  mc_time_slots :: "string list"
  mc_total_pills :: int
  mc_refill_info :: "dict option"
  mc_prescription_image :: "string option"

record MedicationUpdate =
  mu_name :: "string option"
  mu_dosage :: "string option"
  mu_frequency :: "string option"
  mu_time_slots :: "string list option"
  mu_remaining_pills :: "int option"
  mu_refill_info :: "dict option"
  mu_is_active :: "bool option"

record MedicationLog =
  log_id :: string
  log_user_id :: string
  log_medication_id :: string
  log_scheduled_time :: datetime
  log_taken_at :: "datetime option"
  log_status :: string
  log_verification_photo :: "string option"
  log_ai_verification :: "dict option"
  log_notes :: "string option"
  log_caregiver_notified :: bool
  log_created_at :: datetime

record MedicationLogCreate =
  lc_medication_id :: string
  lc_scheduled_time :: datetime
  lc_status :: string

record MedicationLogUpdate =
  lu_taken_at :: "datetime option"
  lu_status :: "string option"
  lu_verification_photo :: "string option"
  lu_notes :: "string option"

record db =
  user_profiles :: "UserProfile list"
  medications :: "Medication list"
  medication_logs :: "MedicationLog list"

datatype error = HTTPException nat string | ValueError | TypeError

subsection \<open>Collection primitives\<close>

text \<open>\<^verbatim>\<open>find_one(q)\<close>: the first document that matches.\<close>

fun find_one :: "('a \<Rightarrow> bool) \<Rightarrow> 'a list \<Rightarrow> 'a option" where
  "find_one q [] = None"
| "find_one q (d # ds) = (if q d then Some d else find_one q ds)"

text \<open>
  \<^verbatim>\<open>update_one(q, {"$set": ...})\<close>: the first document that matches is rewritten;
  the second component is \<^verbatim>\<open>matched_count\<close>.
\<close>

fun update_one :: "('a \<Rightarrow> bool) \<Rightarrow> ('a \<Rightarrow> 'a) \<Rightarrow> 'a list \<Rightarrow> 'a list \<times> nat" where
  "update_one q f [] = ([], 0)"
| "update_one q f (d # ds) =
     (if q d then (f d # ds, 1)
      else (case update_one q f ds of (ds', n) \<Rightarrow> (d # ds', n)))"

text \<open>\<^verbatim>\<open>find(q).to_list(n)\<close>: the matching documents in store order, at most \<open>n\<close> of them.\<close>

definition find_to_list :: "('a \<Rightarrow> bool) \<Rightarrow> nat \<Rightarrow> 'a list \<Rightarrow> 'a list" where
  "find_to_list q n ds = take n (filter q ds)"

text \<open>Python's \<^verbatim>\<open>sum\<close>: a left fold from 0.\<close>

definition py_sum :: "int list \<Rightarrow> int" where
  "py_sum xs = foldl (+) 0 xs"

text \<open>Truthiness of an \<^verbatim>\<open>Optional[str]\<close>: neither \<^verbatim>\<open>None\<close> nor empty.\<close>

fun truthy :: "string option \<Rightarrow> bool" where
  "truthy None = False"
| "truthy (Some s) = (s \<noteq> [])"

subsection \<open>Streak\<close>

text \<open>
  The query of one day in \<^verbatim>\<open>calculate_medication_streak\<close>: the user's logs scheduled
  between the first and the last instant of \<open>check_date\<close>, at most 1000 of them.
\<close>

definition day_logs :: "MedicationLog list \<Rightarrow> string \<Rightarrow> date \<Rightarrow> MedicationLog list" where
  "day_logs logs user_id check_date =
     (let day_start = combine check_date min_time;
          day_end = combine check_date max_time
      in find_to_list (\<lambda>l. log_user_id l = user_id
                            \<and> day_start \<le> log_scheduled_time l
                            \<and> log_scheduled_time l \<le> day_end) 1000 logs)"

definition missed_count :: "MedicationLog list \<Rightarrow> int" where
  "missed_count ls = py_sum (map (\<lambda>l. 1) (filter (\<lambda>l. log_status l = ''missed'') ls))"

text \<open>
  The body of \<^verbatim>\<open>for i in range(365)\<close>, over the indices still to visit; both
  \<^verbatim>\<open>break\<close>s return the count reached.
\<close>

fun streak_loop :: "MedicationLog list \<Rightarrow> string \<Rightarrow> date \<Rightarrow> nat list \<Rightarrow> nat \<Rightarrow> nat" where
  "streak_loop logs user_id current_date [] streak = streak"
| "streak_loop logs user_id current_date (i # is) streak =
     (let check_date = current_date - int i;
          ls = day_logs logs user_id check_date
      in if ls = [] then streak
         else if missed_count ls > 0 then streak
         else streak_loop logs user_id current_date is (streak + 1))"

text \<open>\<open>now\<close> is the value of \<^verbatim>\<open>datetime.now()\<close> read on entry.\<close>

definition calculate_medication_streak :: "db \<Rightarrow> string \<Rightarrow> datetime \<Rightarrow> nat" where
  "calculate_medication_streak d user_id now =
     streak_loop (medication_logs d) user_id (date_part now) [0..<365] 0"

subsection \<open>Medications\<close>

text \<open>
  \<^verbatim>\<open>create_medication\<close>: \<open>new_id\<close> and \<open>utcnow\<close> are the defaults the
  \<^verbatim>\<open>Medication\<close> model draws; the request type has no \<^verbatim>\<open>remaining_pills\<close>.
\<close>

definition create_medication ::
  "db \<Rightarrow> MedicationCreateWithUser \<Rightarrow> string \<Rightarrow> datetime \<Rightarrow> db \<times> Medication" where
  "create_medication d medication_data new_id utcnow =
     (let medication_obj =
        \<lparr> med_id = new_id,
          med_user_id = mc_user_id medication_data,
          med_name = mc_name medication_data,
          med_dosage = mc_dosage medication_data,
          med_frequency = mc_frequency medication_data,
          med_time_slots = mc_time_slots medication_data,
          med_total_pills = mc_total_pills medication_data,
          med_remaining_pills = mc_total_pills medication_data,
          med_refill_info = mc_refill_info medication_data,
          med_prescription_image = mc_prescription_image medication_data,
          med_ai_extracted_info = None,
          med_created_at = utcnow,
          med_is_active = True \<rparr>
      in (d\<lparr>medications := medications d @ [medication_obj]\<rparr>, medication_obj))"

definition get_user_medications :: "db \<Rightarrow> string \<Rightarrow> Medication list" where
  "get_user_medications d user_id =
     find_to_list (\<lambda>m. med_user_id m = user_id \<and> med_is_active m = True) 1000 (medications d)"

text \<open>\<^verbatim>\<open>update_dict\<close> of a \<^verbatim>\<open>MedicationUpdate\<close> is empty when every field is \<^verbatim>\<open>None\<close>.\<close>

definition medication_update_dict_empty :: "MedicationUpdate \<Rightarrow> bool" where
  "medication_update_dict_empty u =
     (mu_name u = None \<and> mu_dosage u = None \<and> mu_frequency u = None
      \<and> mu_time_slots u = None \<and> mu_remaining_pills u = None
      \<and> mu_refill_info u = None \<and> mu_is_active u = None)"

text \<open>\<^verbatim>\<open>{"$set": update_dict}\<close> on one medication document.\<close>

definition set_medication_fields :: "MedicationUpdate \<Rightarrow> Medication \<Rightarrow> Medication" where
  "set_medication_fields u m =
     m\<lparr> med_name := (case mu_name u of None \<Rightarrow> med_name m | Some v \<Rightarrow> v),
        med_dosage := (case mu_dosage u of None \<Rightarrow> med_dosage m | Some v \<Rightarrow> v),
        med_frequency := (case mu_frequency u of None \<Rightarrow> med_frequency m | Some v \<Rightarrow> v),
        med_time_slots := (case mu_time_slots u of None \<Rightarrow> med_time_slots m | Some v \<Rightarrow> v),
        med_remaining_pills :=
          (case mu_remaining_pills u of None \<Rightarrow> med_remaining_pills m | Some v \<Rightarrow> v),
        med_refill_info := (case mu_refill_info u of None \<Rightarrow> med_refill_info m | Some v \<Rightarrow> Some v),
        med_is_active := (case mu_is_active u of None \<Rightarrow> med_is_active m | Some v \<Rightarrow> v) \<rparr>"

definition update_medication ::
  "db \<Rightarrow> string \<Rightarrow> MedicationUpdate \<Rightarrow> error + (db \<times> Medication)" where
  "update_medication d medication_id medication_update =
     (if medication_update_dict_empty medication_update
      then Inl (HTTPException 400 ''No fields to update'')
      else (case update_one (\<lambda>m. med_id m = medication_id)
                   (set_medication_fields medication_update) (medications d) of
              (ms, matched_count) \<Rightarrow>
                if matched_count = 0 then Inl (HTTPException 404 ''Medication not found'')
                else (case find_one (\<lambda>m. med_id m = medication_id) ms of
                        None \<Rightarrow> Inl TypeError
                      | Some updated_medication \<Rightarrow>
                          Inr (d\<lparr>medications := ms\<rparr>, updated_medication))))"

definition delete_medication :: "db \<Rightarrow> string \<Rightarrow> error + db" where
  "delete_medication d medication_id =
     (case update_one (\<lambda>m. med_id m = medication_id)
             (\<lambda>m. m\<lparr>med_is_active := False\<rparr>) (medications d) of
        (ms, matched_count) \<Rightarrow>
          if matched_count = 0 then Inl (HTTPException 404 ''Medication not found'')
          else Inr (d\<lparr>medications := ms\<rparr>))"

subsection \<open>Medication logs\<close>

definition create_medication_log ::
  "db \<Rightarrow> MedicationLogCreate \<Rightarrow> string \<Rightarrow> string \<Rightarrow> datetime \<Rightarrow> db \<times> MedicationLog" where
  "create_medication_log d log user_id new_id utcnow =
     (let log_obj =
        \<lparr> log_id = new_id,
          log_user_id = user_id,
          log_medication_id = lc_medication_id log,
          log_scheduled_time = lc_scheduled_time log,
          log_taken_at = None,
          log_status = lc_status log,
          log_verification_photo = None,
          log_ai_verification = None,
          log_notes = None,
          log_caregiver_notified = False,
          log_created_at = utcnow \<rparr>
      in (d\<lparr>medication_logs := medication_logs d @ [log_obj]\<rparr>, log_obj))"

text \<open>
  One bound of the date range in \<^verbatim>\<open>get_user_medication_logs\<close>. The parser
  \<^verbatim>\<open>datetime.fromisoformat\<close> belongs to the standard library and is an argument:
  \<open>None\<close> where it raises \<^verbatim>\<open>ValueError\<close>. A bound that is \<^verbatim>\<open>None\<close> or the
  empty string is not parsed.
\<close>

definition date_bound ::
  "(string \<Rightarrow> datetime option) \<Rightarrow> string option \<Rightarrow> error + datetime option" where
  "date_bound fromisoformat b =
     (if truthy b
      then (case fromisoformat (the b) of None \<Rightarrow> Inl ValueError | Some t \<Rightarrow> Inr (Some t))
      else Inr None)"

text \<open>The query document: \<^verbatim>\<open>user_id\<close>, and the bounds that were given.\<close>

definition logs_query ::
  "string \<Rightarrow> datetime option \<Rightarrow> datetime option \<Rightarrow> MedicationLog \<Rightarrow> bool" where
  "logs_query user_id gte lte l =
     (log_user_id l = user_id
      \<and> (case gte of None \<Rightarrow> True | Some a \<Rightarrow> a \<le> log_scheduled_time l)
      \<and> (case lte of None \<Rightarrow> True | Some b \<Rightarrow> log_scheduled_time l \<le> b))"

text \<open>
  \<^verbatim>\<open>.sort("scheduled_time", -1)\<close> is a stable sort by descending time here; the
  store leaves the order of equal times open.
\<close>

definition get_user_medication_logs ::
  "(string \<Rightarrow> datetime option) \<Rightarrow> db \<Rightarrow> string \<Rightarrow> string option \<Rightarrow> string option
   \<Rightarrow> error + MedicationLog list" where
  "get_user_medication_logs fromisoformat d user_id start_date end_date =
     (if truthy start_date \<or> truthy end_date
      then (case date_bound fromisoformat start_date of
              Inl e \<Rightarrow> Inl e
            | Inr gte \<Rightarrow>
                (case date_bound fromisoformat end_date of
                   Inl e \<Rightarrow> Inl e
                 | Inr lte \<Rightarrow>
                     Inr (take 1000 (sort_key (\<lambda>l. - log_scheduled_time l)
                            (filter (logs_query user_id gte lte) (medication_logs d))))))
      else Inr (take 1000 (sort_key (\<lambda>l. - log_scheduled_time l)
                  (filter (logs_query user_id None None) (medication_logs d)))))"

definition log_update_dict_empty :: "MedicationLogUpdate \<Rightarrow> bool" where
  "log_update_dict_empty u =
     (lu_taken_at u = None \<and> lu_status u = None
      \<and> lu_verification_photo u = None \<and> lu_notes u = None)"

text \<open>\<^verbatim>\<open>{"$set": update_dict}\<close> on one log document.\<close>

definition set_log_fields :: "MedicationLogUpdate \<Rightarrow> MedicationLog \<Rightarrow> MedicationLog" where
  "set_log_fields u l =
     l\<lparr> log_taken_at := (case lu_taken_at u of None \<Rightarrow> log_taken_at l | Some v \<Rightarrow> Some v),
        log_status := (case lu_status u of None \<Rightarrow> log_status l | Some v \<Rightarrow> v),
        log_verification_photo :=
          (case lu_verification_photo u of None \<Rightarrow> log_verification_photo l | Some v \<Rightarrow> Some v),
        log_notes := (case lu_notes u of None \<Rightarrow> log_notes l | Some v \<Rightarrow> Some v) \<rparr>"

definition update_medication_log ::
  "db \<Rightarrow> string \<Rightarrow> MedicationLogUpdate \<Rightarrow> error + (db \<times> MedicationLog)" where
  "update_medication_log d lid log_update =
     (if log_update_dict_empty log_update
      then Inl (HTTPException 400 ''No fields to update'')
      else (case update_one (\<lambda>l. log_id l = lid) (set_log_fields log_update)
                   (medication_logs d) of
              (ls, matched_count) \<Rightarrow>
                if matched_count = 0 then Inl (HTTPException 404 ''Medication log not found'')
                else (case find_one (\<lambda>l. log_id l = lid) ls of
                        None \<Rightarrow> Inl TypeError
                      | Some updated_log \<Rightarrow> Inr (d\<lparr>medication_logs := ls\<rparr>, updated_log))))"

text \<open>
  \<^verbatim>\<open>update_data\<close> of \<^verbatim>\<open>mark_medication_taken\<close>; the photo is written only when it
  is truthy.
\<close>

definition set_taken :: "datetime \<Rightarrow> string option \<Rightarrow> MedicationLog \<Rightarrow> MedicationLog" where
  "set_taken utcnow verification_photo l =
     (let l' = l\<lparr>log_status := ''taken'', log_taken_at := Some utcnow\<rparr>
      in if truthy verification_photo
         then l'\<lparr>log_verification_photo := verification_photo\<rparr> else l')"

definition mark_medication_taken ::
  "db \<Rightarrow> string \<Rightarrow> string option \<Rightarrow> datetime \<Rightarrow> error + db" where
  "mark_medication_taken d lid verification_photo utcnow =
     (case update_one (\<lambda>l. log_id l = lid) (set_taken utcnow verification_photo)
             (medication_logs d) of
        (ls, matched_count) \<Rightarrow>
          if matched_count = 0 then Inl (HTTPException 404 ''Medication log not found'')
          else Inr (d\<lparr>medication_logs := ls\<rparr>))"

subsection \<open>Dashboard\<close>

text \<open>The sum of line 466 of the source, over the medications the query returned.\<close>

definition total_pills_taken :: "Medication list \<Rightarrow> int" where
  "total_pills_taken meds =
     py_sum (map (\<lambda>med. med_total_pills med - med_remaining_pills med) meds)"



subsection \<open>Requests on the log collection\<close>

text \<open>
  The three routes that write a dose log, and the database a request leaves behind:
  a handler that raises has written nothing.
\<close>

datatype log_request =
  CreateLog MedicationLogCreate string string datetime
| UpdateLog string MedicationLogUpdate
| TakeLog string "string option" datetime

fun log_step :: "db \<Rightarrow> log_request \<Rightarrow> db" where
  "log_step d (CreateLog log user_id new_id utcnow) =
     fst (create_medication_log d log user_id new_id utcnow)"
| "log_step d (UpdateLog lid u) =
     (case update_medication_log d lid u of Inl e \<Rightarrow> d | Inr (d', l) \<Rightarrow> d')"
| "log_step d (TakeLog lid photo utcnow) =
     (case mark_medication_taken d lid photo utcnow of Inl e \<Rightarrow> d | Inr d' \<Rightarrow> d')"

definition log_run :: "db \<Rightarrow> log_request list \<Rightarrow> db" where
  "log_run d rs = foldl log_step d rs"

definition empty_db :: db where
  "empty_db = \<lparr> user_profiles = [], medications = [], medication_logs = [] \<rparr>"


subsection \<open>Properties of the data\<close>

text \<open>
  The day bucket of the specification: all the logs of one user whose scheduled time
  falls on calendar day \<open>day\<close>, however many there are.
\<close>

definition bucket :: "MedicationLog list \<Rightarrow> string \<Rightarrow> date \<Rightarrow> MedicationLog list" where
  "bucket logs user_id day =
     filter (\<lambda>l. log_user_id l = user_id \<and> date_part (log_scheduled_time l) = day) logs"

definition has_missed :: "MedicationLog list \<Rightarrow> bool" where
  "has_missed ls = list_ex (\<lambda>l. log_status l = ''missed'') ls"

text \<open>
  What one iteration of the streak loop tests on the logs its query returned.
\<close>

definition counts_day :: "MedicationLog list \<Rightarrow> string \<Rightarrow> date \<Rightarrow> bool" where
  "counts_day logs user_id d =
     (day_logs logs user_id d \<noteq> [] \<and> \<not> has_missed (day_logs logs user_id d))"

text \<open>
  The lookback window: the 365 calendar days that end on the day of \<open>now\<close>.
\<close>

definition in_lookback :: "datetime \<Rightarrow> MedicationLog \<Rightarrow> bool" where
  "in_lookback now l =
     (date_part now - 364 \<le> date_part (log_scheduled_time l)
      \<and> date_part (log_scheduled_time l) \<le> date_part now)"

text \<open>
  The invariant the specification gives for a medication, and the one it gives for a
  dose log.
\<close>

definition pills_ok :: "Medication \<Rightarrow> bool" where
  "pills_ok m = (0 \<le> med_remaining_pills m \<and> med_remaining_pills m \<le> med_total_pills m)"

definition taken_iff :: "MedicationLog \<Rightarrow> bool" where
  "taken_iff l = ((log_taken_at l \<noteq> None) = (log_status l = ''taken''))"

text \<open>
  What \<^verbatim>\<open>update_medication_log\<close> leaves on the log it hits, read off the request
  and the stored log: a \<^verbatim>\<open>taken_at\<close> is there when the request carries one or the log
  had one, and the status is the request's, or the stored one when the request carries
  none. \<open>update_keeps\<close> says that the two agree as \<open>taken_iff\<close> asks.
\<close>

definition update_keeps :: "MedicationLogUpdate \<Rightarrow> MedicationLog \<Rightarrow> bool" where
  "update_keeps u l =
     ((lu_taken_at u \<noteq> None \<or> log_taken_at l \<noteq> None)
      = ((case lu_status u of None \<Rightarrow> log_status l | Some st \<Rightarrow> st) = ''taken''))"

text \<open>
  The condition on one request in one state: a create carries a status other than
  \<^verbatim>\<open>taken\<close>; an update that hits a log satisfies \<open>update_keeps\<close> on it; a mark-taken
  is free. \<open>log_run_keeps\<close> asks it of every request of a run, each in the state it
  meets.
\<close>

fun log_request_keeps :: "db \<Rightarrow> log_request \<Rightarrow> bool" where
  "log_request_keeps d (CreateLog log user_id new_id utcnow) = (lc_status log \<noteq> ''taken'')"
| "log_request_keeps d (UpdateLog lid u) =
     (case find_one (\<lambda>l. log_id l = lid) (medication_logs d) of
        None \<Rightarrow> True
      | Some l \<Rightarrow> update_keeps u l)"
| "log_request_keeps d (TakeLog lid photo utcnow) = True"

fun log_run_keeps :: "db \<Rightarrow> log_request list \<Rightarrow> bool" where
  "log_run_keeps d [] = True"
| "log_run_keeps d (r # rs) = (log_request_keeps d r \<and> log_run_keeps (log_step d r) rs)"

text \<open>
  A bound of the date range that does not make \<^verbatim>\<open>get_user_medication_logs\<close> raise:
  it is absent or empty, or the parser reads it.
\<close>

definition bound_parses :: "(string \<Rightarrow> datetime option) \<Rightarrow> string option \<Rightarrow> bool" where
  "bound_parses fromisoformat b = (if truthy b then fromisoformat (the b) \<noteq> None else True)"

subsection \<open>Example data\<close>

text \<open>
  A dose log of medication \<^verbatim>\<open>med1\<close>, and the scenario of the specification: on day
  100 two doses taken, on day 99 one missed, on day 98 three taken; the clock stands at
  noon of day 100.
\<close>

definition dose :: "string \<Rightarrow> string \<Rightarrow> datetime \<Rightarrow> string \<Rightarrow> MedicationLog" where
  "dose lid user_id t st =
     \<lparr> log_id = lid, log_user_id = user_id, log_medication_id = ''med1'',
       log_scheduled_time = t,
       log_taken_at = (if st = ''taken'' then Some t else None),
       log_status = st, log_verification_photo = None, log_ai_verification = None,
       log_notes = None, log_caregiver_notified = False, log_created_at = 0 \<rparr>"

definition scenario_db :: db where
  "scenario_db = empty_db\<lparr>medication_logs :=
     [dose ''a'' ''u'' (combine 100 28800000000) ''taken'',
      dose ''b'' ''u'' (combine 100 72000000000) ''taken'',
      dose ''c'' ''u'' (combine 99 28800000000) ''missed'',
      dose ''d'' ''u'' (combine 98 28800000000) ''taken'',
      dose ''e'' ''u'' (combine 98 50400000000) ''taken'',
      dose ''f'' ''u'' (combine 98 72000000000) ''taken'']\<rparr>"

definition scenario_now :: datetime where
  "scenario_now = combine 100 43200000000"

text \<open>
  The scenario with one more log 400 days back, and with one more log of another user.
\<close>

definition old_db :: db where
  "old_db = scenario_db\<lparr>medication_logs :=
     dose ''z'' ''u'' (combine (-300) 28800000000) ''missed'' # medication_logs scenario_db\<rparr>"

definition other_db :: db where
  "other_db = scenario_db\<lparr>medication_logs :=
     dose ''v1'' ''v'' (combine 100 28800000000) ''missed'' # medication_logs scenario_db\<rparr>"

text \<open>
  A day whose doses are all still open.
\<close>

definition pending_db :: db where
  "pending_db = empty_db\<lparr>medication_logs :=
     [dose ''p'' ''u'' (combine 100 28800000000) ''pending'',
      dose ''q'' ''u'' (combine 100 72000000000) ''current'']\<rparr>"

text \<open>
  One dose taken on each of the days 0 to 365, the clock at noon of day 365.
\<close>

definition year_db :: db where
  "year_db = empty_db\<lparr>medication_logs :=
     map (\<lambda>i. dose ''y'' ''u'' (combine (int i) 28800000000) ''taken'') [0..<366]\<rparr>"

definition year_now :: datetime where
  "year_now = combine 365 43200000000"

text \<open>
  A profile, a medication with given pill counts, and a dashboard with two medications.
\<close>

definition patient :: UserProfile where
  "patient =
     \<lparr> prof_id = ''u'', prof_name = ''Ada'', prof_age = 70, prof_phone_number = ''555-0100'',
       prof_profile_photo = None, prof_emergency_contact = [], prof_caregiver_contact = [],
       prof_doctor_contact = [], prof_appearance_mode = ''light'', prof_reminder_tone = ''bell'',
       prof_notification_preferences = [], prof_fitbit_connected = False,
       prof_apple_watch_connected = False, prof_created_at = 0,
       prof_onboarding_completed = True \<rparr>"

definition bottle :: "string \<Rightarrow> string \<Rightarrow> int \<Rightarrow> int \<Rightarrow> Medication" where
  "bottle mid user_id pills left =
     \<lparr> med_id = mid, med_user_id = user_id, med_name = ''Lisinopril'', med_dosage = ''10mg'',
       med_frequency = ''once daily'', med_time_slots = [''08:00''],
       med_total_pills = pills, med_remaining_pills = left,
       med_refill_info = None, med_prescription_image = None, med_ai_extracted_info = None,
       med_created_at = 0, med_is_active = True \<rparr>"

definition dash_db :: db where
  "dash_db = \<lparr> user_profiles = [patient],
               medications = [bottle ''A'' ''u'' 30 25, bottle ''B'' ''u'' 20 20],
               medication_logs = [] \<rparr>"

text \<open>
  A create request for 30 pills, the database and the document it yields, and update
  requests that carry one field.
\<close>

definition new_med :: MedicationCreateWithUser where
  "new_med =
     \<lparr> mc_user_id = ''u'', mc_name = ''Lisinopril'', mc_dosage = ''10mg'',
       mc_frequency = ''once daily'', mc_time_slots = [''08:00''], mc_total_pills = 30,
       mc_refill_info = None, mc_prescription_image = None \<rparr>"

definition stock_db :: db where
  "stock_db = fst (create_medication empty_db new_med ''m1'' 0)"

definition stock_med :: Medication where
  "stock_med = snd (create_medication empty_db new_med ''m1'' 0)"

definition set_remaining :: "int \<Rightarrow> MedicationUpdate" where
  "set_remaining r =
     \<lparr> mu_name = None, mu_dosage = None, mu_frequency = None, mu_time_slots = None,
       mu_remaining_pills = Some r, mu_refill_info = None, mu_is_active = None \<rparr>"

definition new_log :: MedicationLogCreate where
  "new_log = \<lparr> lc_medication_id = ''m1'', lc_scheduled_time = combine 100 28800000000,
               lc_status = ''pending'' \<rparr>"

definition set_status :: "string \<Rightarrow> MedicationLogUpdate" where
  "set_status st =
     \<lparr> lu_taken_at = None, lu_status = Some st, lu_verification_photo = None, lu_notes = None \<rparr>"

definition set_notes :: "string \<Rightarrow> MedicationLogUpdate" where
  "set_notes n =
     \<lparr> lu_taken_at = None, lu_status = None, lu_verification_photo = None, lu_notes = Some n \<rparr>"

definition taken_db :: db where
  "taken_db = log_run empty_db [CreateLog new_log ''u'' ''l1'' 0, TakeLog ''l1'' None 5]"

definition missed_db :: db where
  "missed_db = log_run empty_db [CreateLog new_log ''u'' ''l1'' 0, UpdateLog ''l1'' (set_status ''missed'')]"

text \<open>
  A parser that knows one timestamp, in place of \<^verbatim>\<open>datetime.fromisoformat\<close>.
\<close>

definition parse_example :: "string \<Rightarrow> datetime option" where
  "parse_example s = (if s = ''2024-01-01T00:00:00'' then Some (combine 100 0) else None)"

section \<open>Auxiliary facts\<close>

lemmas ex_defs = scenario_db_def scenario_now_def old_db_def other_db_def pending_db_def
  dose_def empty_db_def combine_def usec_per_day_def date_part_def bucket_def has_missed_def
  in_lookback_def

lemmas med_defs = dash_db_def patient_def bottle_def new_med_def stock_db_def stock_med_def
  set_remaining_def empty_db_def create_medication_def update_medication_def
  delete_medication_def medication_update_dict_empty_def set_medication_fields_def pills_ok_def
  get_user_medications_def find_to_list_def Let_def

lemmas log_defs = new_log_def set_status_def set_notes_def taken_db_def missed_db_def
  empty_db_def log_run_def create_medication_log_def update_medication_log_def
  mark_medication_taken_def log_update_dict_empty_def set_log_fields_def set_taken_def
  taken_iff_def combine_def usec_per_day_def Let_def

subsection \<open>Days and sums\<close>

lemma div_eq_iff_int:
  fixes t d n :: int
  assumes "0 < n"
  shows "(t div n = d) = (d * n \<le> t \<and> t < d * n + n)"
proof
  assume eq: "t div n = d"
  have "t = t div n * n + t mod n" by simp
  moreover have "0 \<le> t mod n" "t mod n < n" using assms by simp_all
  ultimately show "d * n \<le> t \<and> t < d * n + n" using eq by auto
next
  assume h: "d * n \<le> t \<and> t < d * n + n"
  have "t div n = ((t - d * n) + d * n) div n" by simp
  also have "\<dots> = d + (t - d * n) div n" using assms by (simp only: div_mult_self1)
  also have "(t - d * n) div n = 0" using h by (simp add: div_pos_pos_trivial)
  finally show "t div n = d" by simp
qed

lemma in_day_iff:
  "(combine d min_time \<le> t \<and> t \<le> combine d max_time) = (date_part t = d)"
  using div_eq_iff_int [of 86400000000 t d]
  by (auto simp add: combine_def min_time_def max_time_def date_part_def usec_per_day_def) 

lemma date_part_combine:
  assumes "0 \<le> t" and "t < usec_per_day"
  shows "date_part (combine d t) = d"
  unfolding date_part_def combine_def
  using div_eq_iff_int [of usec_per_day "d * usec_per_day + t" d] assms
  by (simp add: usec_per_day_def)

lemma foldl_plus_sum_list: "foldl (+) (a::int) xs = a + sum_list xs"
  by (induction xs arbitrary: a) auto

lemma py_sum_sum_list: "py_sum xs = sum_list xs"
  by (simp add: py_sum_def foldl_plus_sum_list)

lemma missed_count_length:
  "missed_count ls = int (length (filter (\<lambda>l. log_status l = ''missed'') ls))"
  by (simp add: missed_count_def py_sum_sum_list sum_list_triv)

lemma missed_count_pos: "(missed_count ls > 0) = has_missed ls"
  by (auto simp: missed_count_length has_missed_def list_ex_iff filter_empty_conv)

lemma day_logs_bucket: "day_logs logs user_id d = take 1000 (bucket logs user_id d)"
  by (simp add: day_logs_def find_to_list_def bucket_def in_day_iff)

lemma total_pills_taken_sum_list:
  "total_pills_taken meds = (\<Sum>med\<leftarrow>meds. med_total_pills med - med_remaining_pills med)"
  by (simp add: total_pills_taken_def py_sum_sum_list)

lemma total_find_append:
  assumes "med_remaining_pills m = med_total_pills m"
  shows "total_pills_taken (find_to_list q n (ms @ [m])) = total_pills_taken (find_to_list q n ms)"
proof -
  have "sum_list (map (\<lambda>med. med_total_pills med - med_remaining_pills med) (take k [m])) = 0" for k
    using assms by (cases k) simp_all
  moreover have "sum_list (map (\<lambda>med. med_total_pills med - med_remaining_pills med) (take k [])) = 0" for k
    by simp
  ultimately show ?thesis
    by (simp add: total_pills_taken_sum_list find_to_list_def)
qed

subsection \<open>The streak loop\<close>

lemma streak_loop_step:
  "streak_loop logs u cd (i # js) s =
     (if counts_day logs u (cd - int i) then streak_loop logs u cd js (Suc s) else s)"
  by (simp add: counts_day_def missed_count_pos Let_def)

lemma streak_loop_all:
  "\<forall>i\<in>set js. counts_day logs u (cd - int i) \<Longrightarrow>
   streak_loop logs u cd (js @ ks) s = streak_loop logs u cd ks (s + length js)"
proof (induction js arbitrary: s)
  case Nil
  then show ?case by simp
next
  case (Cons j js)
  then show ?case by (simp only: append_Cons streak_loop_step) simp
qed

lemma streak_loop_le: "streak_loop logs u cd js s \<le> s + length js"
proof (induction js arbitrary: s)
  case Nil
  then show ?case by simp
next
  case (Cons j js)
  have "streak_loop logs u cd js (Suc s) \<le> Suc s + length js" by (rule Cons.IH)
  then show ?case by (simp only: streak_loop_step) simp
qed

lemma streak_loop_ge: "s \<le> streak_loop logs u cd js s"
proof (induction js arbitrary: s)
  case Nil
  then show ?case by simp
next
  case (Cons j js)
  have "Suc s \<le> streak_loop logs u cd js (Suc s)" by (rule Cons.IH)
  then show ?case by (simp only: streak_loop_step) simp
qed

lemma streak_loop_cong:
  "\<forall>i\<in>set js. day_logs logs1 u (cd - int i) = day_logs logs2 u (cd - int i) \<Longrightarrow>
   streak_loop logs1 u cd js s = streak_loop logs2 u cd js s"
proof (induction js arbitrary: s)
  case Nil
  then show ?case by simp
next
  case (Cons j js)
  then show ?case by (simp only: streak_loop_step counts_day_def) simp
qed

lemma streak_loop_min:
  assumes ok: "\<forall>j<k. counts_day logs u (cd - int j)"
    and stop: "\<not> counts_day logs u (cd - int k)"
  shows "streak_loop logs u cd [0..<n] 0 = min k n"
proof (cases "k < n")
  case True
  then have split: "[0..<n] = [0..<k] @ k # [Suc k..<n]"
    by (metis upt_conv_Cons upt_add_eq_append le_add_diff_inverse less_imp_le_nat zero_le add_0)
  have "streak_loop logs u cd ([0..<k] @ k # [Suc k..<n]) 0
          = streak_loop logs u cd (k # [Suc k..<n]) (0 + length [0..<k])"
    using ok by (intro streak_loop_all) simp
  also have "\<dots> = k" using stop by (simp only: streak_loop_step) simp
  finally show ?thesis using True split by simp
next
  case False
  then have "\<forall>i\<in>set [0..<n]. counts_day logs u (cd - int i)" using ok by simp
  then have "streak_loop logs u cd ([0..<n] @ []) 0 = streak_loop logs u cd [] (0 + length [0..<n])"
    by (rule streak_loop_all)
  then show ?thesis using False by simp
qed

lemma counts_day_bucket:
  "bucket logs u d \<noteq> [] \<Longrightarrow> \<not> has_missed (bucket logs u d) \<Longrightarrow> counts_day logs u d"
  unfolding counts_day_def day_logs_bucket has_missed_def list_ex_iff
  by (auto dest: in_set_takeD)

lemma not_counts_day_bucket:
  "bucket logs u d = [] \<or> has_missed (take 1000 (bucket logs u d)) \<Longrightarrow> \<not> counts_day logs u d"
  unfolding counts_day_def day_logs_bucket by auto

lemma bucket_lookback:
  assumes "i < 365"
  shows "bucket (filter (in_lookback now) logs) u (date_part now - int i)
           = bucket logs u (date_part now - int i)"
  unfolding bucket_def filter_filter
  by (rule filter_cong) (use assms in \<open>auto simp: in_lookback_def\<close>)


subsection \<open>A year of doses\<close>

lemma year_logs_elem:
  assumes "l \<in> set (medication_logs year_db)"
  shows "\<exists>i<366. date_part (log_scheduled_time l) = int i"
    and "log_status l = ''taken''"
  using assms
  by (auto simp: year_db_def empty_db_def dose_def date_part_combine usec_per_day_def)

lemma year_logs_day:
  assumes "j < 366"
  shows "bucket (medication_logs year_db) ''u'' (365 - int j) \<noteq> []"
proof -
  let ?l = "dose ''y'' ''u'' (combine (int (365 - j)) 28800000000) ''taken''"
  have "?l \<in> set (map (\<lambda>i. dose ''y'' ''u'' (combine (int i) 28800000000) ''taken'') [0..<366])"
    unfolding set_map by (rule imageI) (use assms in simp)
  then have "?l \<in> set (medication_logs year_db)"
    by (simp only: year_db_def empty_db_def db.simps)
  moreover have "log_user_id ?l = ''u''" by (simp add: dose_def)
  moreover have "date_part (log_scheduled_time ?l) = 365 - int j"
    using assms by (simp add: dose_def date_part_combine usec_per_day_def)
  ultimately show ?thesis
    unfolding bucket_def filter_empty_conv by blast
qed

lemma year_logs_no_missed: "\<not> has_missed (bucket (medication_logs year_db) ''u'' c)"
  using year_logs_elem(2) by (auto simp: has_missed_def list_ex_iff bucket_def)

lemma year_logs_before: "bucket (medication_logs year_db) ''u'' (365 - int 366) = []"
  unfolding bucket_def filter_empty_conv using year_logs_elem(1) by fastforce

lemma year_now_date: "date_part year_now = 365"
  by (simp add: year_now_def date_part_combine usec_per_day_def)

lemma year_streak: "calculate_medication_streak year_db ''u'' year_now = 365"
proof -
  have ok: "\<forall>j<366. counts_day (medication_logs year_db) ''u'' (365 - int j)"
    using year_logs_day year_logs_no_missed by (auto intro: counts_day_bucket)
  have stop: "\<not> counts_day (medication_logs year_db) ''u'' (365 - int 366)"
    using year_logs_before by (intro not_counts_day_bucket) simp
  have "streak_loop (medication_logs year_db) ''u'' 365 [0..<365] 0 = min 366 365"
    using ok stop by (rule streak_loop_min)
  then show ?thesis by (simp add: calculate_medication_streak_def year_now_date)
qed

subsection \<open>Updating one document\<close>

lemma update_one_fst:
  "fst (update_one q f (x # xs)) = (if q x then f x # xs else x # fst (update_one q f xs))"
  by (simp split: prod.splits)

lemma update_one_snd:
  "snd (update_one q f (x # xs)) = (if q x then 1 else snd (update_one q f xs))"
  by (simp split: prod.splits)

lemma update_one_length: "length (fst (update_one q f xs)) = length xs"
  by (induction xs) (simp_all add: update_one_fst del: update_one.simps(2))

lemma update_one_list_all:
  "list_all P xs \<Longrightarrow> (\<And>x. P x \<Longrightarrow> P (f x)) \<Longrightarrow> list_all P (fst (update_one q f xs))"
  by (induction xs) (simp_all add: update_one_fst del: update_one.simps(2))

lemma update_one_map:
  "(\<And>x. g (f x) = g x) \<Longrightarrow> map g (fst (update_one q f xs)) = map g xs"
  by (induction xs) (simp_all add: update_one_fst del: update_one.simps(2))

lemma update_one_nth:
  "i < length xs \<Longrightarrow>
   fst (update_one q f xs) ! i = xs ! i \<or> fst (update_one q f xs) ! i = f (xs ! i)"
proof (induction xs arbitrary: i)
  case Nil
  then show ?case by simp
next
  case (Cons x xs)
  then show ?case
    by (cases i) (auto simp add: update_one_fst simp del: update_one.simps(2))
qed

lemma update_one_unmatched: "snd (update_one q f xs) = 0 \<Longrightarrow> fst (update_one q f xs) = xs"
  by (induction xs) (simp_all add: update_one_fst update_one_snd del: update_one.simps(2) split: if_splits)

lemma update_one_split:
  "snd (update_one q f xs) \<noteq> 0 \<Longrightarrow>
   \<exists>pre x post. xs = pre @ x # post \<and> (\<forall>y\<in>set pre. \<not> q y) \<and> q x
      \<and> fst (update_one q f xs) = pre @ f x # post"
proof (induction xs)
  case Nil
  then show ?case by simp
next
  case (Cons a xs)
  show ?case
  proof (cases "q a")
    case True
    then have "a # xs = [] @ a # xs \<and> (\<forall>y\<in>set []. \<not> q y) \<and> q a
        \<and> fst (update_one q f (a # xs)) = [] @ f a # xs" by simp
    then show ?thesis by blast
  next
    case False
    then have "snd (update_one q f xs) \<noteq> 0"
      using Cons.prems by (simp add: update_one_snd del: update_one.simps(2))
    then obtain pre x post where h: "xs = pre @ x # post" "\<forall>y\<in>set pre. \<not> q y" "q x"
        "fst (update_one q f xs) = pre @ f x # post"
      using Cons.IH by blast
    then have "a # xs = (a # pre) @ x # post \<and> (\<forall>y\<in>set (a # pre). \<not> q y) \<and> q x
        \<and> fst (update_one q f (a # xs)) = (a # pre) @ f x # post"
      using False by (simp add: update_one_fst del: update_one.simps(2))
    then show ?thesis by blast
  qed
qed

lemma find_one_split:
  "\<forall>y\<in>set pre. \<not> q y \<Longrightarrow> q z \<Longrightarrow> find_one q (pre @ z # post) = Some z"
  by (induction pre) auto

lemma update_one_found:
  assumes "snd (update_one q f xs) \<noteq> 0" and "\<And>x. q (f x) = q x"
  shows "find_one q (fst (update_one q f xs)) \<noteq> None"
proof -
  from update_one_split [OF assms(1)] obtain pre x post where
    h: "\<forall>y\<in>set pre. \<not> q y" "q x" "fst (update_one q f xs) = pre @ f x # post"
    by blast
  have "find_one q (pre @ f x # post) = Some (f x)"
    using h(1,2) assms(2) by (intro find_one_split) simp_all
  then show ?thesis using h(3) by simp
qed

lemma update_medication_Inr:
  assumes "update_medication d mid upd = Inr (d2, m2)"
  shows "\<exists>pre x post. medications d = pre @ x # post
           \<and> medications d2 = pre @ m2 # post \<and> m2 = set_medication_fields upd x"
proof -
  let ?q = "\<lambda>m. med_id m = mid"
  let ?f = "set_medication_fields upd"
  from assms have nz: "snd (update_one ?q ?f (medications d)) \<noteq> 0"
    and d2: "medications d2 = fst (update_one ?q ?f (medications d))"
    and m2: "find_one ?q (fst (update_one ?q ?f (medications d))) = Some m2"
    by (auto simp: update_medication_def split: if_splits prod.splits option.splits)
  from update_one_split [OF nz] obtain pre x post where
    h: "medications d = pre @ x # post" "\<forall>y\<in>set pre. \<not> ?q y" "?q x"
       "fst (update_one ?q ?f (medications d)) = pre @ ?f x # post"
    by blast
  have "?q (?f x)" using h(3) by (simp add: set_medication_fields_def)
  then have "find_one ?q (pre @ ?f x # post) = Some (?f x)"
    using h(2) by (intro find_one_split)
  then have "m2 = ?f x" using m2 h(4) by simp
  then show ?thesis using h d2 by auto
qed

subsection \<open>Requests on logs\<close>

lemma set_taken_iff: "taken_iff (set_taken t photo l)"
  by (simp add: set_taken_def taken_iff_def Let_def)

lemma set_log_fields_keeps: "taken_iff (set_log_fields u l) = update_keeps u l"
  by (auto simp: set_log_fields_def taken_iff_def update_keeps_def split: option.splits)

lemma find_one_None_update: "find_one q xs = None \<Longrightarrow> fst (update_one q f xs) = xs"
  by (induction xs) (simp_all add: update_one_fst del: update_one.simps(2) split: if_splits)

lemma find_one_Some_update:
  "find_one q xs = Some l \<Longrightarrow>
   \<exists>pre post. xs = pre @ l # post \<and> fst (update_one q f xs) = pre @ f l # post"
proof (induction xs)
  case Nil
  then show ?case by simp
next
  case (Cons a xs)
  show ?case
  proof (cases "q a")
    case True
    then have "a # xs = [] @ l # xs \<and> fst (update_one q f (a # xs)) = [] @ f l # xs"
      using Cons.prems by simp
    then show ?thesis by blast
  next
    case False
    then have "find_one q xs = Some l" using Cons.prems by simp
    then obtain pre post where "xs = pre @ l # post" "fst (update_one q f xs) = pre @ f l # post"
      using Cons.IH by blast
    then have "a # xs = (a # pre) @ l # post
        \<and> fst (update_one q f (a # xs)) = (a # pre) @ f l # post"
      using False by (simp add: update_one_fst del: update_one.simps(2))
    then show ?thesis by blast
  qed
qed

lemma update_log_logs:
  "medication_logs (log_step d (UpdateLog lid u)) =
     (if log_update_dict_empty u then medication_logs d
      else fst (update_one (\<lambda>l. log_id l = lid) (set_log_fields u) (medication_logs d)))"
proof -
  obtain ls n where r: "update_one (\<lambda>l. log_id l = lid) (set_log_fields u) (medication_logs d) = (ls, n)"
    by (cases "update_one (\<lambda>l. log_id l = lid) (set_log_fields u) (medication_logs d)")
  have un: "n = 0 \<Longrightarrow> ls = medication_logs d"
    using update_one_unmatched [of "\<lambda>l. log_id l = lid" "set_log_fields u" "medication_logs d"] r
    by simp
  have "n \<noteq> 0 \<Longrightarrow> find_one (\<lambda>l. log_id l = lid) ls \<noteq> None"
    using update_one_found [of "\<lambda>l. log_id l = lid" "set_log_fields u" "medication_logs d"] r
    by (simp add: set_log_fields_def)
  then show ?thesis
    using r un by (cases "n = 0") (auto simp: update_medication_log_def split: option.splits)
qed

lemma take_log_logs:
  "medication_logs (log_step d (TakeLog lid photo utcnow)) =
     fst (update_one (\<lambda>l. log_id l = lid) (set_taken utcnow photo) (medication_logs d))"
proof -
  obtain ls n where r: "update_one (\<lambda>l. log_id l = lid) (set_taken utcnow photo) (medication_logs d) = (ls, n)"
    by (cases "update_one (\<lambda>l. log_id l = lid) (set_taken utcnow photo) (medication_logs d)")
  have "n = 0 \<Longrightarrow> ls = medication_logs d"
    using update_one_unmatched [of "\<lambda>l. log_id l = lid" "set_taken utcnow photo" "medication_logs d"] r
    by simp
  then show ?thesis
    using r by (cases "n = 0") (auto simp: mark_medication_taken_def)
qed

lemma log_step_keeps:
  assumes inv: "list_all taken_iff (medication_logs d)"
  shows "list_all taken_iff (medication_logs (log_step d r)) = log_request_keeps d r"
proof (cases r)
  case (CreateLog log user_id new_id utcnow)
  then show ?thesis
    using inv by (simp add: create_medication_log_def Let_def taken_iff_def)
next
  case (UpdateLog lid u)
  let ?q = "\<lambda>l. log_id l = lid"
  show ?thesis
  proof (cases "find_one ?q (medication_logs d)")
    case None
    then have "fst (update_one ?q (set_log_fields u) (medication_logs d)) = medication_logs d"
      by (rule find_one_None_update)
    then have "medication_logs (log_step d (UpdateLog lid u)) = medication_logs d"
      by (simp only: update_log_logs split: if_splits) simp
    then show ?thesis using inv None UpdateLog by simp
  next
    case (Some l)
    then obtain pre post where sp: "medication_logs d = pre @ l # post"
        "fst (update_one ?q (set_log_fields u) (medication_logs d)) = pre @ set_log_fields u l # post"
      using find_one_Some_update [of ?q "medication_logs d" l "set_log_fields u"] by blast
    have l: "taken_iff l" and rest: "list_all taken_iff pre" "list_all taken_iff post"
      using inv sp(1) by simp_all
    show ?thesis
    proof (cases "log_update_dict_empty u")
      case True
      then have "medication_logs (log_step d (UpdateLog lid u)) = medication_logs d"
        by (simp only: update_log_logs split: if_splits) simp
      moreover have "update_keeps u l"
        using True l by (simp add: log_update_dict_empty_def update_keeps_def taken_iff_def)
      ultimately show ?thesis using inv Some UpdateLog by simp
    next
      case False
      then have "medication_logs (log_step d (UpdateLog lid u)) = pre @ set_log_fields u l # post"
        using sp(2) by (simp only: update_log_logs split: if_splits) simp
      then show ?thesis using rest Some UpdateLog by (simp add: set_log_fields_keeps)
    qed
  qed
next
  case (TakeLog lid photo utcnow)
  have "list_all taken_iff
          (fst (update_one (\<lambda>l. log_id l = lid) (set_taken utcnow photo) (medication_logs d)))"
    using inv by (rule update_one_list_all) (rule set_taken_iff)
  then show ?thesis using TakeLog by (simp only: take_log_logs log_request_keeps.simps)
qed

lemma log_run_keeps_inv:
  "list_all taken_iff (medication_logs d) \<Longrightarrow> log_run_keeps d rs \<Longrightarrow>
   list_all taken_iff (medication_logs (log_run d rs))"
  unfolding log_run_def
proof (induction rs arbitrary: d)
  case Nil
  then show ?case by simp
next
  case (Cons r rs)
  have "list_all taken_iff (medication_logs (log_step d r))"
    using Cons.prems by (simp add: log_step_keeps)
  then have "list_all taken_iff (medication_logs (foldl log_step (log_step d r) rs))"
    using Cons.prems by (intro Cons.IH) simp_all
  then show ?case by simp
qed

lemma no_logs_query:
  "filter (\<lambda>l. log_user_id l = u) logs = [] \<Longrightarrow> filter (logs_query u gte lte) logs = []"
  by (auto simp: filter_empty_conv logs_query_def)

section \<open>The claims\<close>

subsection \<open>C1: the streak is the number of leading qualifying days\<close>

text \<open>
  C1 as the specification states it, for every \<open>k\<close>, fails beyond the lookback
  limit: with a dose taken on each of 366 consecutive days and nothing before them, the
  hypotheses hold at \<open>k = 366\<close>, and the loop, which visits 365 days, returns 365.
\<close>

theorem streak_exact_counterexample:
  "\<not> (\<forall>k. (\<forall>j<k. bucket (medication_logs year_db) ''u'' (date_part year_now - int j) \<noteq> []
                  \<and> \<not> has_missed (bucket (medication_logs year_db) ''u'' (date_part year_now - int j)))
            \<and> (bucket (medication_logs year_db) ''u'' (date_part year_now - int k) = []
                \<or> has_missed (bucket (medication_logs year_db) ''u'' (date_part year_now - int k)))
            \<longrightarrow> calculate_medication_streak year_db ''u'' year_now = k)"
proof
  assume claim: "\<forall>k. (\<forall>j<k. bucket (medication_logs year_db) ''u'' (date_part year_now - int j) \<noteq> []
                  \<and> \<not> has_missed (bucket (medication_logs year_db) ''u'' (date_part year_now - int j)))
            \<and> (bucket (medication_logs year_db) ''u'' (date_part year_now - int k) = []
                \<or> has_missed (bucket (medication_logs year_db) ''u'' (date_part year_now - int k)))
            \<longrightarrow> calculate_medication_streak year_db ''u'' year_now = k"
  have "\<forall>j<366. bucket (medication_logs year_db) ''u'' (date_part year_now - int j) \<noteq> []
                  \<and> \<not> has_missed (bucket (medication_logs year_db) ''u'' (date_part year_now - int j))"
    using year_logs_day year_logs_no_missed by (simp add: year_now_date)
  moreover have "bucket (medication_logs year_db) ''u'' (date_part year_now - int 366) = []"
    using year_logs_before by (simp add: year_now_date)
  ultimately have "calculate_medication_streak year_db ''u'' year_now = 366"
    using claim by blast
  then show False by (simp add: year_streak)
qed

text \<open>
  C1, amended. If today and the \<open>k - 1\<close> days before it each have at least one log
  of the user and none with status \<^verbatim>\<open>missed\<close>, and day \<open>today - k\<close> has no log of the
  user or has a \<^verbatim>\<open>missed\<close> one among the first 1000 logs its query returns, then
  \<^verbatim>\<open>calculate_medication_streak\<close> returns \<open>min k 365\<close>: exactly \<open>k\<close> when
  \<open>k \<le> 365\<close>.
\<close>

theorem streak_exact:
  assumes "\<forall>j<k. bucket (medication_logs d) u (date_part now - int j) \<noteq> []
                \<and> \<not> has_missed (bucket (medication_logs d) u (date_part now - int j))"
    and "bucket (medication_logs d) u (date_part now - int k) = []
         \<or> has_missed (take 1000 (bucket (medication_logs d) u (date_part now - int k)))"
  shows "calculate_medication_streak d u now = min k 365"
proof -
  have ok: "\<forall>j<k. counts_day (medication_logs d) u (date_part now - int j)"
    using assms(1) by (auto intro: counts_day_bucket)
  have stop: "\<not> counts_day (medication_logs d) u (date_part now - int k)"
    using assms(2) by (rule not_counts_day_bucket)
  show ?thesis
    unfolding calculate_medication_streak_def using ok stop by (rule streak_loop_min)
qed

text \<open>
  The scenario of the specification: today qualifies, yesterday has a missed dose, the
  streak is 1.
\<close>

theorem streak_exact_witness:
  "(bucket (medication_logs scenario_db) ''u'' (date_part scenario_now - int 0) \<noteq> []
    \<and> \<not> has_missed (bucket (medication_logs scenario_db) ''u'' (date_part scenario_now - int 0)))
   \<and> has_missed (take 1000 (bucket (medication_logs scenario_db) ''u'' (date_part scenario_now - int 1)))
   \<and> calculate_medication_streak scenario_db ''u'' scenario_now = 1"
  using streak_exact [of 1 scenario_db "''u''" scenario_now]
  by (simp add: ex_defs)

subsection \<open>C2: the streak is bounded by the lookback\<close>

text \<open>
  C2. \<^verbatim>\<open>calculate_medication_streak\<close> returns a number between 0 and 365, and it
  reads no log outside the 365 days that end today: two databases whose logs agree inside
  that window give the same streak.
\<close>

theorem streak_bounded:
  "calculate_medication_streak d u now \<le> 365
   \<and> (\<forall>d'. filter (in_lookback now) (medication_logs d') = filter (in_lookback now) (medication_logs d)
        \<longrightarrow> calculate_medication_streak d' u now = calculate_medication_streak d u now)"
proof (intro conjI allI impI)
  show "calculate_medication_streak d u now \<le> 365"
    using streak_loop_le [of "medication_logs d" u "date_part now" "[0..<365]" 0]
    by (simp add: calculate_medication_streak_def)
next
  fix d' :: db
  assume eq: "filter (in_lookback now) (medication_logs d') = filter (in_lookback now) (medication_logs d)"
  have "\<forall>i\<in>set [0..<365]. day_logs (medication_logs d') u (date_part now - int i)
          = day_logs (medication_logs d) u (date_part now - int i)"
  proof
    fix i assume "i \<in> set [0..<365]"
    then have i: "i < 365" by simp
    have "bucket (medication_logs d') u (date_part now - int i)
            = bucket (filter (in_lookback now) (medication_logs d')) u (date_part now - int i)"
      using bucket_lookback [OF i] by simp
    also have "\<dots> = bucket (medication_logs d) u (date_part now - int i)"
      using bucket_lookback [OF i] eq by simp
    finally show "day_logs (medication_logs d') u (date_part now - int i)
          = day_logs (medication_logs d) u (date_part now - int i)"
      by (simp add: day_logs_bucket)
  qed
  then show "calculate_medication_streak d' u now = calculate_medication_streak d u now"
    unfolding calculate_medication_streak_def by (rule streak_loop_cong)
qed

text \<open>
  A missed dose 400 days back changes the database and not the streak.
\<close>

theorem streak_bounded_witness:
  "filter (in_lookback scenario_now) (medication_logs old_db)
     = filter (in_lookback scenario_now) (medication_logs scenario_db)
   \<and> medication_logs old_db \<noteq> medication_logs scenario_db
   \<and> calculate_medication_streak old_db ''u'' scenario_now
       = calculate_medication_streak scenario_db ''u'' scenario_now
   \<and> calculate_medication_streak scenario_db ''u'' scenario_now \<le> 365"
proof -
  have h: "filter (in_lookback scenario_now) (medication_logs old_db)
     = filter (in_lookback scenario_now) (medication_logs scenario_db)"
    by (simp add: ex_defs)
  have "medication_logs old_db \<noteq> medication_logs scenario_db" by (simp add: ex_defs)
  then show ?thesis
    using h streak_bounded [of scenario_db "''u''" scenario_now] by blast
qed

subsection \<open>C3: a day of open doses counts\<close>

text \<open>
  C3. A day within the lookback that the loop reaches, whose logs are not empty and all
  have status \<^verbatim>\<open>pending\<close> or \<^verbatim>\<open>current\<close>, counts: the loop adds one and goes
  on to the day before, and the streak exceeds the number of days before that day.
\<close>

theorem pending_day_counts:
  assumes "k < 365"
    and "\<forall>j<k. bucket (medication_logs d) u (date_part now - int j) \<noteq> []
                \<and> \<not> has_missed (bucket (medication_logs d) u (date_part now - int j))"
    and "bucket (medication_logs d) u (date_part now - int k) \<noteq> []"
    and "\<forall>l\<in>set (bucket (medication_logs d) u (date_part now - int k)).
            log_status l = ''pending'' \<or> log_status l = ''current''"
  shows "streak_loop (medication_logs d) u (date_part now) (k # js) s
           = streak_loop (medication_logs d) u (date_part now) js (Suc s)
         \<and> k < calculate_medication_streak d u now"
proof -
  have nm: "\<not> has_missed (bucket (medication_logs d) u (date_part now - int k))"
    using assms(4) by (auto simp: has_missed_def list_ex_iff)
  have ck: "counts_day (medication_logs d) u (date_part now - int k)"
    using assms(3) nm by (rule counts_day_bucket)
  have all: "\<forall>i\<in>set [0..<Suc k]. counts_day (medication_logs d) u (date_part now - int i)"
    using assms(2) ck by (auto simp: less_Suc_eq intro: counts_day_bucket)
  have split: "[0..<365] = [0..<Suc k] @ [Suc k..<365]"
    using assms(1) by (metis upt_add_eq_append le_add_diff_inverse Suc_leI zero_le add_0)
  have "streak_loop (medication_logs d) u (date_part now) ([0..<Suc k] @ [Suc k..<365]) 0
          = streak_loop (medication_logs d) u (date_part now) [Suc k..<365] (0 + length [0..<Suc k])"
    using all by (rule streak_loop_all)
  moreover have "0 + length [0..<Suc k]
       \<le> streak_loop (medication_logs d) u (date_part now) [Suc k..<365] (0 + length [0..<Suc k])"
    by (rule streak_loop_ge)
  ultimately have "k < calculate_medication_streak d u now"
    using split by (simp add: calculate_medication_streak_def)
  then show ?thesis using ck by (simp only: streak_loop_step) simp
qed

text \<open>
  Today holds one pending and one current dose: the streak is positive.
\<close>

theorem pending_day_counts_witness:
  "map log_status (bucket (medication_logs pending_db) ''u'' (date_part scenario_now - int 0))
     = [''pending'', ''current'']
   \<and> streak_loop (medication_logs pending_db) ''u'' (date_part scenario_now) [0] 0
       = streak_loop (medication_logs pending_db) ''u'' (date_part scenario_now) [] (Suc 0)
   \<and> 0 < calculate_medication_streak pending_db ''u'' scenario_now"
proof -
  have s: "map log_status (bucket (medication_logs pending_db) ''u'' (date_part scenario_now - int 0))
     = [''pending'', ''current'']"
    by (simp add: ex_defs)
  then have 3: "bucket (medication_logs pending_db) ''u'' (date_part scenario_now - int 0) \<noteq> []"
    by auto
  have 4: "\<forall>l\<in>set (bucket (medication_logs pending_db) ''u'' (date_part scenario_now - int 0)).
            log_status l = ''pending'' \<or> log_status l = ''current''"
    by (simp add: ex_defs)
  show ?thesis
    using s pending_day_counts [of 0 pending_db "''u''" scenario_now "[]" 0, OF _ _ 3 4] by simp
qed

subsection \<open>C4: pills taken\<close>



subsection \<open>C5: the streak is a function of the user's logs and the day\<close>




subsection \<open>C6: pill counts of a medication\<close>

text \<open>
  C6 as the specification states it fails: \<^verbatim>\<open>update_medication\<close> stores the
  \<^verbatim>\<open>remaining_pills\<close> of the request unchecked. A medication created with 30 pills
  and updated with 31 remaining is accepted and ends with 31 of 30.
\<close>

theorem medication_pills_writes_counterexample:
  "list_all pills_ok (medications stock_db)
   \<and> update_medication stock_db ''m1'' (set_remaining 31)
        = Inr (stock_db\<lparr>medications := [stock_med\<lparr>med_remaining_pills := 31\<rparr>]\<rparr>,
               stock_med\<lparr>med_remaining_pills := 31\<rparr>)
   \<and> med_total_pills (stock_med\<lparr>med_remaining_pills := 31\<rparr>) = 30
   \<and> med_remaining_pills (stock_med\<lparr>med_remaining_pills := 31\<rparr>) = 31
   \<and> \<not> list_all pills_ok [stock_med\<lparr>med_remaining_pills := 31\<rparr>]"
  by (simp add: med_defs)

text \<open>
  C6, amended. \<^verbatim>\<open>create_medication\<close> stores \<open>remaining_pills = total_pills\<close>
  and keeps \<open>0 \<le> remaining_pills \<le> total_pills\<close> on every medication when the
  \<^verbatim>\<open>total_pills\<close> of the request is not negative; \<^verbatim>\<open>update_medication\<close> never
  changes \<^verbatim>\<open>total_pills\<close> and keeps the invariant when the request carries no
  \<^verbatim>\<open>remaining_pills\<close> or one between 0 and the medication's \<^verbatim>\<open>total_pills\<close>;
  \<^verbatim>\<open>delete_medication\<close> keeps it.
\<close>

theorem medication_pills_writes:
  "(create_medication d c new_id utcnow = (d1, m1) \<longrightarrow>
      med_remaining_pills m1 = med_total_pills m1
      \<and> (list_all pills_ok (medications d) \<and> 0 \<le> mc_total_pills c
           \<longrightarrow> list_all pills_ok (medications d1)))
   \<and> (update_medication d mid upd = Inr (d2, m2) \<longrightarrow>
        map med_total_pills (medications d2) = map med_total_pills (medications d)
        \<and> (list_all pills_ok (medications d)
             \<and> (case mu_remaining_pills upd of None \<Rightarrow> True
                 | Some r \<Rightarrow> 0 \<le> r \<and> r \<le> med_total_pills m2)
             \<longrightarrow> list_all pills_ok (medications d2)))
   \<and> (delete_medication d mid = Inr d3 \<longrightarrow> list_all pills_ok (medications d)
        \<longrightarrow> list_all pills_ok (medications d3))"
proof (intro conjI impI)
  assume "create_medication d c new_id utcnow = (d1, m1)"
  then show "med_remaining_pills m1 = med_total_pills m1"
    by (auto simp: create_medication_def Let_def)
next
  assume "create_medication d c new_id utcnow = (d1, m1)"
    and "list_all pills_ok (medications d) \<and> 0 \<le> mc_total_pills c"
  then show "list_all pills_ok (medications d1)"
    by (auto simp: create_medication_def Let_def pills_ok_def)
next
  assume "update_medication d mid upd = Inr (d2, m2)"
  then obtain pre x post where "medications d = pre @ x # post"
      "medications d2 = pre @ m2 # post" "m2 = set_medication_fields upd x"
    using update_medication_Inr by blast
  then show "map med_total_pills (medications d2) = map med_total_pills (medications d)"
    by (simp add: set_medication_fields_def)
next
  assume "update_medication d mid upd = Inr (d2, m2)"
    and ok: "list_all pills_ok (medications d)
             \<and> (case mu_remaining_pills upd of None \<Rightarrow> True
                 | Some r \<Rightarrow> 0 \<le> r \<and> r \<le> med_total_pills m2)"
  then obtain pre x post where h: "medications d = pre @ x # post"
      "medications d2 = pre @ m2 # post" "m2 = set_medication_fields upd x"
    using update_medication_Inr by blast
  have "pills_ok m2"
    using ok h(1,3) by (auto simp: pills_ok_def set_medication_fields_def split: option.splits)
  then show "list_all pills_ok (medications d2)" using ok h(1,2) by simp
next
  assume "delete_medication d mid = Inr d3" and ok: "list_all pills_ok (medications d)"
  then have "medications d3
      = fst (update_one (\<lambda>m. med_id m = mid) (\<lambda>m. m\<lparr>med_is_active := False\<rparr>) (medications d))"
    by (auto simp: delete_medication_def split: prod.splits if_splits)
  moreover have "list_all pills_ok
      (fst (update_one (\<lambda>m. med_id m = mid) (\<lambda>m. m\<lparr>med_is_active := False\<rparr>) (medications d)))"
    using ok by (rule update_one_list_all) (simp add: pills_ok_def)
  ultimately show "list_all pills_ok (medications d3)" by simp
qed

theorem medication_pills_writes_witness:
  "list_all pills_ok (medications empty_db) \<and> 0 \<le> mc_total_pills new_med
   \<and> create_medication empty_db new_med ''m1'' 0 = (stock_db, stock_med)
   \<and> med_remaining_pills stock_med = med_total_pills stock_med
   \<and> list_all pills_ok (medications stock_db)
   \<and> update_medication stock_db ''m1'' (set_remaining 25)
        = Inr (stock_db\<lparr>medications := [stock_med\<lparr>med_remaining_pills := 25\<rparr>]\<rparr>,
               stock_med\<lparr>med_remaining_pills := 25\<rparr>)
   \<and> list_all pills_ok [stock_med\<lparr>med_remaining_pills := 25\<rparr>]
   \<and> delete_medication stock_db ''m1''
        = Inr (stock_db\<lparr>medications := [stock_med\<lparr>med_is_active := False\<rparr>]\<rparr>)
   \<and> list_all pills_ok [stock_med\<lparr>med_is_active := False\<rparr>]"
proof -
  have c: "create_medication empty_db new_med ''m1'' 0 = (stock_db, stock_med)"
    by (simp add: stock_db_def stock_med_def)
  have u: "update_medication stock_db ''m1'' (set_remaining 25)
        = Inr (stock_db\<lparr>medications := [stock_med\<lparr>med_remaining_pills := 25\<rparr>]\<rparr>,
               stock_med\<lparr>med_remaining_pills := 25\<rparr>)"
    by (simp add: med_defs)
  have x: "delete_medication stock_db ''m1''
        = Inr (stock_db\<lparr>medications := [stock_med\<lparr>med_is_active := False\<rparr>]\<rparr>)"
    by (simp add: med_defs)
  have h0: "list_all pills_ok (medications empty_db)" "0 \<le> mc_total_pills new_med"
    by (simp_all add: empty_db_def new_med_def)
  have r: "(case mu_remaining_pills (set_remaining 25) of None \<Rightarrow> True
            | Some r \<Rightarrow> 0 \<le> r \<and> r \<le> med_total_pills (stock_med\<lparr>med_remaining_pills := 25\<rparr>))"
    by (simp add: med_defs)
  note a = medication_pills_writes [of empty_db new_med "''m1''" 0 stock_db stock_med]
  note b = medication_pills_writes [of stock_db new_med "''m1''" 0 stock_db stock_med "''m1''"
      "set_remaining 25" "stock_db\<lparr>medications := [stock_med\<lparr>med_remaining_pills := 25\<rparr>]\<rparr>"
      "stock_med\<lparr>med_remaining_pills := 25\<rparr>"
      "stock_db\<lparr>medications := [stock_med\<lparr>med_is_active := False\<rparr>]\<rparr>"]
  have s: "list_all pills_ok (medications stock_db)"
    and e: "med_remaining_pills stock_med = med_total_pills stock_med"
    using a c h0 by blast+
  have "list_all pills_ok [stock_med\<lparr>med_remaining_pills := 25\<rparr>]"
    "list_all pills_ok [stock_med\<lparr>med_is_active := False\<rparr>]"
    using b u x s r by simp_all
  then show ?thesis using c u x h0 s e by blast
qed

subsection \<open>C7: taken_at and the status taken\<close>

text \<open>
  C7 as the specification states it fails: \<^verbatim>\<open>update_medication_log\<close> writes
  \<^verbatim>\<open>status\<close> and \<^verbatim>\<open>taken_at\<close> independently. A pending log updated with the
  status \<^verbatim>\<open>taken\<close> alone has that status and no \<^verbatim>\<open>taken_at\<close>.
\<close>

theorem taken_at_iff_taken_counterexample:
  "map log_status (medication_logs (log_run empty_db
      [CreateLog new_log ''u'' ''l1'' 0, UpdateLog ''l1'' (set_status ''taken'')])) = [''taken'']
   \<and> map log_taken_at (medication_logs (log_run empty_db
      [CreateLog new_log ''u'' ''l1'' 0, UpdateLog ''l1'' (set_status ''taken'')])) = [None]
   \<and> \<not> list_all taken_iff (medication_logs (log_run empty_db
      [CreateLog new_log ''u'' ''l1'' 0, UpdateLog ''l1'' (set_status ''taken'')]))"
  by (simp add: log_defs)

text \<open>
  C7, amended. From a state in which \<^verbatim>\<open>taken_at\<close> is set if and only if the status is
  \<^verbatim>\<open>taken\<close> on every log, a request keeps that exactly when it is a mark-taken, a
  create whose status is not \<^verbatim>\<open>taken\<close>, or an update that hits no log or leaves on
  the log it hits a \<^verbatim>\<open>taken_at\<close> (the request's or the stored one) exactly when the
  resulting status (the request's, or the stored one when the request carries none) is
  \<^verbatim>\<open>taken\<close>. Every state reached from the empty collection by requests that meet
  this condition has \<^verbatim>\<open>taken_at\<close> set if and only if the status is \<^verbatim>\<open>taken\<close>.
\<close>

theorem taken_at_iff_taken:
  "(list_all taken_iff (medication_logs d) \<longrightarrow>
      list_all taken_iff (medication_logs (log_step d r)) = log_request_keeps d r)
   \<and> (log_run_keeps empty_db rs \<longrightarrow>
        list_all taken_iff (medication_logs (log_run empty_db rs)))"
proof (intro conjI impI)
  assume "list_all taken_iff (medication_logs d)"
  then show "list_all taken_iff (medication_logs (log_step d r)) = log_request_keeps d r"
    by (rule log_step_keeps)
next
  assume "log_run_keeps empty_db rs"
  with _ show "list_all taken_iff (medication_logs (log_run empty_db rs))"
    by (rule log_run_keeps_inv) (simp add: empty_db_def)
qed

text \<open>
  A dose that goes from pending to missed and one that is marked taken and then
  annotated: every request meets the condition, and the update to \<^verbatim>\<open>missed\<close> is a
  step that keeps the invariant.
\<close>

theorem taken_at_iff_taken_witness:
  "list_all taken_iff (medication_logs (log_step empty_db (CreateLog new_log ''u'' ''l1'' 0)))
   \<and> log_request_keeps (log_step empty_db (CreateLog new_log ''u'' ''l1'' 0))
        (UpdateLog ''l1'' (set_status ''missed''))
   \<and> list_all taken_iff (medication_logs
        (log_step (log_step empty_db (CreateLog new_log ''u'' ''l1'' 0))
           (UpdateLog ''l1'' (set_status ''missed''))))
   \<and> log_run_keeps empty_db
        [CreateLog new_log ''u'' ''l1'' 0, UpdateLog ''l1'' (set_status ''missed''),
         CreateLog new_log ''u'' ''l2'' 0, TakeLog ''l2'' None 5000,
         UpdateLog ''l2'' (set_notes ''with food'')]
   \<and> list_all taken_iff (medication_logs (log_run empty_db
        [CreateLog new_log ''u'' ''l1'' 0, UpdateLog ''l1'' (set_status ''missed''),
         CreateLog new_log ''u'' ''l2'' 0, TakeLog ''l2'' None 5000,
         UpdateLog ''l2'' (set_notes ''with food'')]))
   \<and> map log_status (medication_logs (log_run empty_db
        [CreateLog new_log ''u'' ''l1'' 0, UpdateLog ''l1'' (set_status ''missed''),
         CreateLog new_log ''u'' ''l2'' 0, TakeLog ''l2'' None 5000,
         UpdateLog ''l2'' (set_notes ''with food'')]))
       = [''missed'', ''taken'']
   \<and> map log_taken_at (medication_logs (log_run empty_db
        [CreateLog new_log ''u'' ''l1'' 0, UpdateLog ''l1'' (set_status ''missed''),
         CreateLog new_log ''u'' ''l2'' 0, TakeLog ''l2'' None 5000,
         UpdateLog ''l2'' (set_notes ''with food'')]))
       = [None, Some 5000]"
proof -
  let ?d = "log_step empty_db (CreateLog new_log ''u'' ''l1'' 0)"
  let ?r = "UpdateLog ''l1'' (set_status ''missed'')"
  let ?rs = "[CreateLog new_log ''u'' ''l1'' 0, UpdateLog ''l1'' (set_status ''missed''),
         CreateLog new_log ''u'' ''l2'' 0, TakeLog ''l2'' None 5000,
         UpdateLog ''l2'' (set_notes ''with food'')]"
  have inv: "list_all taken_iff (medication_logs ?d)"
    by (simp add: log_defs)
  have k: "log_request_keeps ?d ?r"
    by (simp add: log_defs update_keeps_def)
  have ks: "log_run_keeps empty_db ?rs"
    by (simp add: log_defs update_keeps_def)
  have st: "map log_status (medication_logs (log_run empty_db ?rs)) = [''missed'', ''taken'']"
    and at: "map log_taken_at (medication_logs (log_run empty_db ?rs)) = [None, Some 5000]"
    by (simp_all add: log_defs)
  show ?thesis
    using inv k ks st at taken_at_iff_taken [of ?d ?r ?rs] by blast
qed

subsection \<open>C8: terminal statuses\<close>

text \<open>
  C8 as the specification states it fails: no handler looks at the status it
  overwrites. \<^verbatim>\<open>mark_medication_taken\<close> turns a missed log into a taken one, and
  \<^verbatim>\<open>update_medication_log\<close> turns a taken log back to pending.
\<close>

theorem status_kept_counterexample:
  "map log_status (medication_logs missed_db) = [''missed'']
   \<and> map log_status (medication_logs (log_step missed_db (TakeLog ''l1'' None 9))) = [''taken'']
   \<and> map log_status (medication_logs taken_db) = [''taken'']
   \<and> map log_status (medication_logs (log_step taken_db (UpdateLog ''l1'' (set_status ''pending''))))
       = [''pending'']"
  by (simp add: log_defs)

text \<open>
  C8, amended. A log whose status is \<^verbatim>\<open>taken\<close> keeps it under
  \<^verbatim>\<open>mark_medication_taken\<close>, and every log keeps its status under an
  \<^verbatim>\<open>update_medication_log\<close> request that carries no status.
\<close>

theorem status_kept:
  "(\<forall>i<length (medication_logs d).
       log_status (medication_logs d ! i) = ''taken'' \<longrightarrow>
       log_status (medication_logs (log_step d (TakeLog lid photo utcnow)) ! i) = ''taken'')
   \<and> (lu_status u = None \<longrightarrow>
        map log_status (medication_logs (log_step d (UpdateLog lid u)))
          = map log_status (medication_logs d))"
proof (intro conjI allI impI)
  fix i
  assume i: "i < length (medication_logs d)"
    and t: "log_status (medication_logs d ! i) = ''taken''"
  let ?ls = "fst (update_one (\<lambda>l. log_id l = lid) (set_taken utcnow photo) (medication_logs d))"
  have "?ls ! i = medication_logs d ! i \<or> ?ls ! i = set_taken utcnow photo (medication_logs d ! i)"
    using i by (rule update_one_nth)
  then have "log_status (?ls ! i) = ''taken''"
    using t by (auto simp: set_taken_def Let_def)
  then show "log_status (medication_logs (log_step d (TakeLog lid photo utcnow)) ! i) = ''taken''"
    by (simp only: take_log_logs)
next
  assume n: "lu_status u = None"
  have "map log_status (fst (update_one (\<lambda>l. log_id l = lid) (set_log_fields u) (medication_logs d)))
          = map log_status (medication_logs d)"
    by (rule update_one_map) (simp add: set_log_fields_def n)
  then show "map log_status (medication_logs (log_step d (UpdateLog lid u)))
          = map log_status (medication_logs d)"
    by (simp only: update_log_logs split: if_splits) simp
qed

theorem status_kept_witness:
  "log_status (medication_logs taken_db ! 0) = ''taken''
   \<and> log_status (medication_logs (log_step taken_db (TakeLog ''l1'' None 9)) ! 0) = ''taken''
   \<and> lu_status (set_notes ''with food'') = None
   \<and> map log_status (medication_logs (log_step taken_db (UpdateLog ''l1'' (set_notes ''with food''))))
       = map log_status (medication_logs taken_db)"
proof -
  have l: "0 < length (medication_logs taken_db)"
    and t: "log_status (medication_logs taken_db ! 0) = ''taken''"
    and n: "lu_status (set_notes ''with food'') = None"
    by (simp_all add: log_defs)
  show ?thesis
    using l t n status_kept [of taken_db "''l1''" None 9 "set_notes ''with food''"] by blast
qed

subsection \<open>C9: reading the logs of a user who has none\<close>

text \<open>
  C9 as the specification states it fails on a date bound the parser rejects: for a
  user with no stored log and \<^verbatim>\<open>start_date = "yesterday"\<close> the handler raises
  \<^verbatim>\<open>ValueError\<close> before it queries.
\<close>

theorem no_logs_empty_counterexample:
  "filter (\<lambda>l. log_user_id l = ''ghost'') (medication_logs scenario_db) = []
   \<and> parse_example ''yesterday'' = None
   \<and> get_user_medication_logs parse_example scenario_db ''ghost'' (Some ''yesterday'') None
       = Inl ValueError"
  by (simp add: get_user_medication_logs_def date_bound_def parse_example_def
      scenario_db_def empty_db_def dose_def)

text \<open>
  C9, amended. For a user with no stored log, \<^verbatim>\<open>get_user_medication_logs\<close> returns
  the empty list and raises nothing when each bound of the date range is absent, empty
  or a timestamp that \<^verbatim>\<open>datetime.fromisoformat\<close> reads; otherwise it raises
  \<^verbatim>\<open>ValueError\<close>.
\<close>

theorem no_logs_empty:
  assumes "filter (\<lambda>l. log_user_id l = u) (medication_logs d) = []"
  shows "get_user_medication_logs fromisoformat d u start_date end_date
           = (if bound_parses fromisoformat start_date \<and> bound_parses fromisoformat end_date
              then Inr [] else Inl ValueError)"
  using no_logs_query [OF assms]
  by (auto simp: get_user_medication_logs_def date_bound_def bound_parses_def
      split: option.splits)

theorem no_logs_empty_witness:
  "filter (\<lambda>l. log_user_id l = ''ghost'') (medication_logs scenario_db) = []
   \<and> get_user_medication_logs parse_example scenario_db ''ghost''
        (Some ''2024-01-01T00:00:00'') None = Inr []
   \<and> get_user_medication_logs parse_example scenario_db ''ghost'' None None = Inr []
   \<and> get_user_medication_logs parse_example scenario_db ''ghost'' None (Some ''tomorrow'')
       = Inl ValueError"
proof -
  have h: "filter (\<lambda>l. log_user_id l = ''ghost'') (medication_logs scenario_db) = []"
    by (simp add: scenario_db_def empty_db_def dose_def)
  show ?thesis
    using h no_logs_empty [OF h, of parse_example "Some ''2024-01-01T00:00:00''" None]
      no_logs_empty [OF h, of parse_example None None]
      no_logs_empty [OF h, of parse_example None "Some ''tomorrow''"]
    by (simp add: bound_parses_def parse_example_def)
qed

subsection \<open>C10: a new medication has all its pills\<close>

text \<open>
  C10. \<^verbatim>\<open>create_medication\<close> stores \<open>remaining_pills = total_pills\<close>, the
  \<^verbatim>\<open>total_pills\<close> of the request, which has no field for the remaining pills; the new
  medication adds 0 to \<^verbatim>\<open>total_pills_taken\<close>, alone and in the list of any user's
  active medications.
\<close>

theorem create_medication_remaining:
  assumes "create_medication d c new_id utcnow = (d', m)"
  shows "med_remaining_pills m = med_total_pills m
         \<and> med_total_pills m = mc_total_pills c
         \<and> medications d' = medications d @ [m]
         \<and> total_pills_taken [m] = 0
         \<and> total_pills_taken (get_user_medications d' u) = total_pills_taken (get_user_medications d u)"
proof -
  have m: "med_remaining_pills m = med_total_pills m" "med_total_pills m = mc_total_pills c"
    and d': "medications d' = medications d @ [m]"
    using assms by (auto simp: create_medication_def Let_def)
  have "total_pills_taken [m] = 0" using m by (simp add: total_pills_taken_sum_list)
  moreover have "total_pills_taken (get_user_medications d' u) = total_pills_taken (get_user_medications d u)"
    unfolding get_user_medications_def d' using m(1) by (rule total_find_append)
  ultimately show ?thesis using m d' by simp
qed

theorem create_medication_remaining_witness:
  "create_medication empty_db new_med ''m1'' 0 = (stock_db, stock_med)
   \<and> med_remaining_pills stock_med = 30
   \<and> med_total_pills stock_med = 30
   \<and> medications stock_db = [stock_med]
   \<and> total_pills_taken [stock_med] = 0
   \<and> total_pills_taken (get_user_medications stock_db ''u'') = 0"
proof -
  have c: "create_medication empty_db new_med ''m1'' 0 = (stock_db, stock_med)"
    by (simp add: stock_db_def stock_med_def)
  have "total_pills_taken (get_user_medications empty_db ''u'') = 0"
    by (simp add: total_pills_taken_def py_sum_def get_user_medications_def find_to_list_def empty_db_def)
  then show ?thesis
    using c create_medication_remaining [OF c, of "''u''"] by (simp add: new_med_def empty_db_def)
qed

end
